theory Spec2Isabelle
  imports Main
begin

section \<open>Data model of app.py\<close>

text \<open>
  The SQLAlchemy models become records, one per table row. The primary key column
  \<^verbatim>\<open>id\<close> of each model is named \<open>user_pk\<close>, \<open>movie_pk\<close>, ... (\<open>id\<close> is the identity
  function of HOL); Python integers are \<open>int\<close>. \<^verbatim>\<open>Movie.rating\<close> is a Float column that
  only the ordering of the survey page reads; it is not part of the model.
\<close>

record genre =
  genre_pk :: int
  genre_name :: string

record language =
  language_pk :: int
  language_name :: string

record movie =
  movie_pk :: int
  title :: string
  overview :: "string option"
  poster_path :: string

text \<open>
  A value held by the \<^verbatim>\<open>rating\<close> attribute of a Review object: \<^verbatim>\<open>movie_detail\<close> assigns
  the result of \<^verbatim>\<open>int(rating)\<close>, \<^verbatim>\<open>edit_review\<close> assigns the form field itself, a \<^verbatim>\<open>str\<close>.
  A row of the review table holds the value as the route hands it to the session; what the
  database engine makes of a string in an integer column is not written in app.py.
\<close>

datatype py_value = PyInt int | PyStr string

text \<open>
  \<^verbatim>\<open>Review.text\<close> is the field \<open>review_text\<close>. The foreign keys \<^verbatim>\<open>user_id\<close> and
  \<^verbatim>\<open>movie_id\<close> are always given a value by the route that creates a review.
  \<^verbatim>\<open>timestamp\<close> is the clock reading \<^verbatim>\<open>datetime.utcnow()\<close> at insertion.
\<close>

record review =
  review_pk :: int
  rating :: py_value
  review_text :: "string option"
  timestamp :: int
  user_id :: int
  movie_id :: int

record user =
  user_pk :: int
  username :: string
  password_hash :: string
  has_completed_survey :: bool
  is_admin :: bool
  bio :: "string option"
  avatar_path :: string

text \<open>
  The store: the five model tables in row order, and the six association tables. Each
  association table has both columns as its composite primary key, so it is a set of pairs.
\<close>

record db =
  user_table :: "user list"
  movie_table :: "movie list"
  genre_table :: "genre list"
  language_table :: "language list"
  review_table :: "review list"
  user_genre_preferences :: "(int \<times> int) set"
  user_liked_movies :: "(int \<times> int) set"
  user_language_preferences :: "(int \<times> int) set"
  movie_genres :: "(int \<times> int) set"
  movie_languages :: "(int \<times> int) set"
  user_watchlist :: "(int \<times> int) set"

subsection \<open>Relationships\<close>

text \<open>\<^verbatim>\<open>User.preferred_genres\<close>, loaded through \<^verbatim>\<open>user_genre_preferences\<close>.\<close>

definition preferred_genres :: "db \<Rightarrow> user \<Rightarrow> genre list" where
  "preferred_genres d u =
     [g \<leftarrow> genre_table d. (user_pk u, genre_pk g) \<in> user_genre_preferences d]"

definition liked_movies :: "db \<Rightarrow> user \<Rightarrow> movie list" where
  "liked_movies d u =
     [m \<leftarrow> movie_table d. (user_pk u, movie_pk m) \<in> user_liked_movies d]"

definition preferred_languages :: "db \<Rightarrow> user \<Rightarrow> language list" where
  "preferred_languages d u =
     [l \<leftarrow> language_table d. (user_pk u, language_pk l) \<in> user_language_preferences d]"

definition watchlist :: "db \<Rightarrow> user \<Rightarrow> movie list" where
  "watchlist d u =
     [m \<leftarrow> movie_table d. (user_pk u, movie_pk m) \<in> user_watchlist d]"

text \<open>\<^verbatim>\<open>Movie.genres\<close> and \<^verbatim>\<open>Movie.languages\<close>.\<close>

definition genres :: "db \<Rightarrow> movie \<Rightarrow> genre list" where
  "genres d m = [g \<leftarrow> genre_table d. (movie_pk m, genre_pk g) \<in> movie_genres d]"

definition languages :: "db \<Rightarrow> movie \<Rightarrow> language list" where
  "languages d m =
     [l \<leftarrow> language_table d. (movie_pk m, language_pk l) \<in> movie_languages d]"

text \<open>\<^verbatim>\<open>Movie.reviews\<close>, the dynamic relationship: the reviews whose \<^verbatim>\<open>movie_id\<close> is the movie's.\<close>

definition reviews :: "db \<Rightarrow> movie \<Rightarrow> review list" where
  "reviews d m = [r \<leftarrow> review_table d. movie_id r = movie_pk m]"

subsection \<open>Requests, responses, errors\<close>

datatype http_method = GET | POST

text \<open>\<^verbatim>\<open>request.form\<close> is a multi-dict: a key may occur several times.\<close>

record request =
  req_method :: http_method
  form :: "(string \<times> string) list"

text \<open>\<^verbatim>\<open>request.form.get(k)\<close>: the first value of the key, or \<^verbatim>\<open>None\<close>.\<close>

definition form_get :: "request \<Rightarrow> string \<Rightarrow> string option" where
  "form_get req k = map_of (form req) k"

text \<open>\<^verbatim>\<open>request.form.getlist(k)\<close>: all values of the key, in order.\<close>

definition form_getlist :: "request \<Rightarrow> string \<Rightarrow> string list" where
  "form_getlist req k = map snd (filter (\<lambda>kv. fst kv = k) (form req))"

text \<open>
  What a view function can raise: \<^verbatim>\<open>get_or_404\<close> and \<^verbatim>\<open>abort(403)\<close>, the
  \<^verbatim>\<open>BadRequestKeyError\<close> of \<^verbatim>\<open>request.form[k]\<close> on a missing key (HTTP 400), the
  \<^verbatim>\<open>ValueError\<close> of \<^verbatim>\<open>int\<close>, and the \<^verbatim>\<open>OverflowError\<close> of a commit that hands the
  database an integer it cannot hold.
\<close>

datatype error = NotFound | Forbidden | BadRequestKeyError string | ValueError | OverflowError

text \<open>\<^verbatim>\<open>request.form[k]\<close>.\<close>

definition form_item :: "request \<Rightarrow> string \<Rightarrow> error + string" where
  "form_item req k =
     (case map_of (form req) k of None \<Rightarrow> Inl (BadRequestKeyError k) | Some v \<Rightarrow> Inr v)"

datatype endpoint =
    EpIndex | EpDashboard | EpLogin | EpRegister | EpSurvey | EpRecommendations
  | EpMovieDetail int | EpProfile string | EpAdminReviews

datatype response =
    Redirect endpoint
  | RenderRecommendations "(movie \<times> int) list"
  | RenderMovieDetail movie "review list" "review option"
  | RenderEditReview review
  | RenderSurvey
  | RenderRegister
  | RenderAdminReviewForm

text \<open>
  A view function that returns gives its response, the messages it flashed (message and
  category) and the store as committed.
\<close>

type_synonym flash = "string \<times> string"
type_synonym reply = "response \<times> flash list \<times> db"

section \<open>The recommendations route\<close>

text \<open>The four set comprehensions at the head of \<^verbatim>\<open>recommendations\<close>.\<close>

definition user_pref_genre_ids :: "db \<Rightarrow> user \<Rightarrow> int set" where
  "user_pref_genre_ids d u = set (map genre_pk (preferred_genres d u))"

definition user_pref_lang_ids :: "db \<Rightarrow> user \<Rightarrow> int set" where
  "user_pref_lang_ids d u = set (map language_pk (preferred_languages d u))"

definition seed_movie_genre_ids :: "db \<Rightarrow> user \<Rightarrow> int set" where
  "seed_movie_genre_ids d u =
     set (concat (map (\<lambda>m. map genre_pk (genres d m)) (liked_movies d u)))"

definition liked_movie_ids :: "db \<Rightarrow> user \<Rightarrow> int set" where
  "liked_movie_ids d u = set (map movie_pk (liked_movies d u))"

text \<open>
  \<^verbatim>\<open>Movie.query.join(Movie.languages).filter(Language.id.in_(ids)).all()\<close>: the join has
  one row for each pair of a movie and one of its languages; the filter keeps the rows
  whose language id is in \<open>ids\<close>; the query object returns each movie once, at its first row.
\<close>

definition unique_rows :: "'a list \<Rightarrow> 'a list" where
  "unique_rows xs = fold (\<lambda>x seen. if x \<in> set seen then seen else seen @ [x]) xs []"

definition candidate_movies :: "db \<Rightarrow> int set \<Rightarrow> movie list" where
  "candidate_movies d ids =
     unique_rows
       (concat (map (\<lambda>m. map (\<lambda>l. m) (filter (\<lambda>l. language_pk l \<in> ids) (languages d m)))
                    (movie_table d)))"

text \<open>
  \<^verbatim>\<open>recommendations_scores[movie] = score\<close> on a dict, which keeps its keys in insertion
  order; \<^verbatim>\<open>.items()\<close> is then the list itself.
\<close>

fun dict_set :: "('k \<times> 'v) list \<Rightarrow> 'k \<Rightarrow> 'v \<Rightarrow> ('k \<times> 'v) list" where
  "dict_set [] k v = [(k, v)]"
| "dict_set ((k', v') # kvs) k v =
     (if k' = k then (k', v) # kvs else (k', v') # dict_set kvs k v)"

text \<open>The score of one movie, as the loop body computes it.\<close>

definition movie_genre_ids :: "db \<Rightarrow> movie \<Rightarrow> int set" where
  "movie_genre_ids d m = set (map genre_pk (genres d m))"

definition movie_score :: "int set \<Rightarrow> int set \<Rightarrow> int set \<Rightarrow> int" where
  "movie_score pref_genre_ids seed_genre_ids genre_ids =
     (let score = 0;
          direct_matches = pref_genre_ids \<inter> genre_ids;
          score = score + int (card direct_matches) * 10;
          indirect_matches = seed_genre_ids \<inter> genre_ids;
          score = score + int (card indirect_matches) * 5
      in score)"

text \<open>The loop over \<^verbatim>\<open>candidate_movies\<close>, with the dict as accumulator.\<close>

fun recommendations_loop ::
  "db \<Rightarrow> int set \<Rightarrow> int set \<Rightarrow> int set \<Rightarrow> movie list \<Rightarrow> (movie \<times> int) list
     \<Rightarrow> (movie \<times> int) list" where
  "recommendations_loop d pref seed liked [] scores = scores"
| "recommendations_loop d pref seed liked (m # ms) scores =
     (if movie_pk m \<in> liked then recommendations_loop d pref seed liked ms scores
      else
        let score = movie_score pref seed (movie_genre_ids d m)
        in if score > 0
           then recommendations_loop d pref seed liked ms (dict_set scores m score)
           else recommendations_loop d pref seed liked ms scores)"

text \<open>
  \<^verbatim>\<open>sorted(items, key=lambda item: item[1], reverse=True)\<close>: a stable sort, highest
  score first, equal scores in the order of the dict.
\<close>

definition sorted_recommendations :: "(movie \<times> int) list \<Rightarrow> (movie \<times> int) list" where
  "sorted_recommendations items = sort_key (\<lambda>item. - snd item) items"

text \<open>
  The view function. \<open>cu\<close> is \<^verbatim>\<open>current_user\<close>, the user that \<^verbatim>\<open>login_required\<close> has
  admitted.
\<close>

definition recommendations :: "db \<Rightarrow> user \<Rightarrow> error + reply" where
  "recommendations d cu =
     (if \<not> has_completed_survey cu
      then Inr (Redirect EpSurvey,
                [(''Please complete the survey to get recommendations.'', ''info'')], d)
      else
        let recommendations_scores =
              recommendations_loop d (user_pref_genre_ids d cu) (seed_movie_genre_ids d cu)
                (liked_movie_ids d cu) (candidate_movies d (user_pref_lang_ids d cu)) []
        in Inr (RenderRecommendations (sorted_recommendations recommendations_scores), [], d))"

section \<open>Reading numbers from form fields\<close>

text \<open>
  Form values are modelled as ASCII text, one \<open>char\<close> for each character. The white space
  that \<^verbatim>\<open>int\<close> skips around the numeral of an ASCII string, and that the database skips
  when it reads text as a number, is tab, line feed, vertical tab, form feed, carriage
  return and space; the separators 28 to 31 are not among it.
\<close>

definition is_space :: "char \<Rightarrow> bool" where
  "is_space c = ((of_char c :: nat) \<in> {9, 10, 11, 12, 13, 32})"

definition is_digit :: "char \<Rightarrow> bool" where
  "is_digit c = (48 \<le> (of_char c :: nat) \<and> (of_char c :: nat) \<le> 57)"

definition strip :: "string \<Rightarrow> string" where
  "strip s = rev (dropWhile is_space (rev (dropWhile is_space s)))"

definition digits_value :: "string \<Rightarrow> int" where
  "digits_value s = foldl (\<lambda>acc c. 10 * acc + (int (of_char c) - 48)) 0 s"

text \<open>Digits, with single underscores allowed between two digits, as \<^verbatim>\<open>int\<close> accepts.\<close>

fun digits_ok :: "string \<Rightarrow> bool" where
  "digits_ok [] = False"
| "digits_ok [c] = is_digit c"
| "digits_ok (c # c' # cs) =
     (is_digit c \<and> (if c' = CHR ''_'' then digits_ok cs else digits_ok (c' # cs)))"

text \<open>
  \<^verbatim>\<open>int(s)\<close> for an ASCII string: surrounding white space is dropped, one sign may come
  first, and anything else than digits raises \<^verbatim>\<open>ValueError\<close> (here \<open>None\<close>), and so does
  a numeral of more than 4300 digits, the interpreter's default limit for the conversion.
  A string with a character outside ASCII is not modelled: \<^verbatim>\<open>int\<close> reads the white space
  and the decimal digits of other scripts too, and the model gives \<open>None\<close> there. What is
  proved below about a stored rating is stated for the strings that the model reads,
  which are ASCII.
\<close>

definition max_str_digits :: nat where
  "max_str_digits = 4300"

definition py_int :: "string \<Rightarrow> int option" where
  "py_int s =
     (let t = strip s;
          (sign, body) =
            (case t of
               [] \<Rightarrow> (1, [])
             | c # cs \<Rightarrow>
                 if c = CHR ''-'' then (- 1, cs)
                 else if c = CHR ''+'' then (1, cs)
                 else (1, t))
      in if digits_ok body \<and> length (filter is_digit body) \<le> max_str_digits
         then Some (sign * digits_value (filter is_digit body))
         else None)"

text \<open>
  \<^verbatim>\<open>Model.id.in_(values)\<close> with the strings of \<^verbatim>\<open>request.form.getlist\<close>: the database
  compares the integer column with each submitted text read as a number, and an empty
  list selects nothing. The model reads the integer literals: decimal digits, with a sign
  and white space around them allowed. Text with a fraction or an exponent, which the
  database reads as a number too, is not modelled (the model lets it select nothing):
  the properties of the survey are stated for forms whose values are plain decimal
  numerals, as the check boxes of the survey page submit them.
\<close>

definition numeral :: "string \<Rightarrow> bool" where
  "numeral v = (v \<noteq> [] \<and> list_all is_digit v)"

definition form_id :: "string \<Rightarrow> int option" where
  "form_id v =
     (let t = strip v;
          (sign, body) =
            (case t of
               [] \<Rightarrow> (1, [])
             | c # cs \<Rightarrow>
                 if c = CHR ''-'' then (- 1, cs)
                 else if c = CHR ''+'' then (1, cs)
                 else (1, t))
      in if body \<noteq> [] \<and> list_all is_digit body
         then Some (sign * digits_value body)
         else None)"

definition id_in :: "int \<Rightarrow> string list \<Rightarrow> bool" where
  "id_in i vals = (\<exists>v \<in> set vals. form_id v = Some i)"

section \<open>Queries by primary key\<close>

text \<open>\<^verbatim>\<open>Query.first()\<close>.\<close>

definition first :: "'a list \<Rightarrow> 'a option" where
  "first xs = (case xs of [] \<Rightarrow> None | x # _ \<Rightarrow> Some x)"

text \<open>\<^verbatim>\<open>Movie.query.get\<close>, \<^verbatim>\<open>Review.query.get\<close>, \<^verbatim>\<open>User.query.get\<close>.\<close>

definition get_movie :: "db \<Rightarrow> int \<Rightarrow> movie option" where
  "get_movie d i = find (\<lambda>m. movie_pk m = i) (movie_table d)"

definition get_review :: "db \<Rightarrow> int \<Rightarrow> review option" where
  "get_review d i = find (\<lambda>r. review_pk r = i) (review_table d)"

definition get_user :: "db \<Rightarrow> int \<Rightarrow> user option" where
  "get_user d i = find (\<lambda>u. user_pk u = i) (user_table d)"

text \<open>The primary key the store gives a new row: one more than the largest in the table.\<close>

definition next_pk :: "int list \<Rightarrow> int" where
  "next_pk pks = (if pks = [] then 1 else Max (set pks) + 1)"

section \<open>The movie detail route\<close>

text \<open>\<^verbatim>\<open>not rating\<close> for the result of \<^verbatim>\<open>request.form.get\<close>: \<^verbatim>\<open>None\<close> and the empty string.\<close>

definition falsy :: "string option \<Rightarrow> bool" where
  "falsy v = (case v of None \<Rightarrow> True | Some s \<Rightarrow> s = [])"

text \<open>
  The database holds an integer in 64 bits: the commit of a row with a Python integer
  outside that range raises \<^verbatim>\<open>OverflowError\<close>, and nothing is stored.
\<close>

definition fits_int64 :: "int \<Rightarrow> bool" where
  "fits_int64 n = (- (2 ^ 63) \<le> n \<and> n < 2 ^ 63)"

text \<open>\<open>now\<close> is the clock reading that becomes the timestamp of a new review.\<close>

definition movie_detail :: "db \<Rightarrow> user \<Rightarrow> int \<Rightarrow> request \<Rightarrow> int \<Rightarrow> error + reply" where
  "movie_detail d cu now req mid =
     (case get_movie d mid of
        None \<Rightarrow> Inl NotFound
      | Some movie \<Rightarrow>
          let user_review = first (filter (\<lambda>r. user_id r = user_pk cu) (reviews d movie))
          in if req_method req = POST then
               (if user_review \<noteq> None then
                  Inr (Redirect (EpMovieDetail mid),
                       [(''You have already reviewed this movie. You can edit your existing review.'',
                         ''error'')], d)
                else
                  let rating_field = form_get req ''rating'';
                      text = form_get req ''review_text''
                  in if falsy rating_field then
                       Inr (Redirect (EpMovieDetail mid),
                            [(''You must provide a rating.'', ''error'')], d)
                     else
                       (case py_int (the rating_field) of
                          None \<Rightarrow> Inl ValueError
                        | Some n \<Rightarrow>
                            let new_review =
                                  \<lparr>review_pk = next_pk (map review_pk (review_table d)),
                                   rating = PyInt n, review_text = text, timestamp = now,
                                   user_id = user_pk cu, movie_id = movie_pk movie\<rparr>
                            in if \<not> fits_int64 n then Inl OverflowError
                               else
                                 Inr (Redirect (EpMovieDetail mid),
                                      [(''Your review has been submitted!'', ''success'')],
                                      d\<lparr>review_table := review_table d @ [new_review]\<rparr>)))
             else
               Inr (RenderMovieDetail movie
                      (sort_key (\<lambda>r. - timestamp r) (reviews d movie)) user_review, [], d))"

section \<open>The review edit route\<close>

text \<open>\<^verbatim>\<open>review.author\<close>, the backref of \<^verbatim>\<open>User.reviews\<close>.\<close>

definition author :: "db \<Rightarrow> review \<Rightarrow> user option" where
  "author d r = get_user d (user_id r)"

text \<open>
  \<^verbatim>\<open>review.author != current_user\<close> compares the two users by their ids
  (\<^verbatim>\<open>UserMixin.__ne__\<close>); a review without an author differs from every user.
  The route assigns the rating field, a string, to \<^verbatim>\<open>review.rating\<close> and commits; the
  row of the model keeps that string. The database stores a string that it reads as a
  number as that number, and any other string as text.
\<close>

definition edit_review :: "db \<Rightarrow> user \<Rightarrow> request \<Rightarrow> int \<Rightarrow> error + reply" where
  "edit_review d cu req rid =
     (case get_review d rid of
        None \<Rightarrow> Inl NotFound
      | Some rv \<Rightarrow>
          if map_option user_pk (author d rv) \<noteq> Some (user_pk cu) then Inl Forbidden
          else if req_method req = POST then
            (case form_item req ''rating'' of
               Inl e \<Rightarrow> Inl e
             | Inr new_rating \<Rightarrow>
                 (case form_item req ''review_text'' of
                    Inl e \<Rightarrow> Inl e
                  | Inr new_text \<Rightarrow>
                      Inr (Redirect (EpMovieDetail (movie_id rv)),
                           [(''Your review has been updated!'', ''success'')],
                           d\<lparr>review_table :=
                               map (\<lambda>r. if review_pk r = review_pk rv
                                        then r\<lparr>rating := PyStr new_rating,
                                               review_text := Some new_text\<rparr>
                                        else r)
                                   (review_table d)\<rparr>)))
          else Inr (RenderEditReview rv, [], d))"

section \<open>The registration route\<close>

text \<open>
  \<open>cu\<close> is the logged-in user, if there is one; \<open>pw_hash\<close> is the salted hash that
  \<^verbatim>\<open>generate_password_hash\<close> produces for the password. The second component of the
  result is the user handed to \<^verbatim>\<open>login_user\<close>.
\<close>

definition register ::
  "db \<Rightarrow> user option \<Rightarrow> (string \<Rightarrow> string) \<Rightarrow> request \<Rightarrow> error + (reply \<times> user option)" where
  "register d cu pw_hash req =
     (if cu \<noteq> None then Inr ((Redirect EpDashboard, [], d), None)
      else if req_method req = POST then
        (case form_item req ''username'' of
           Inl e \<Rightarrow> Inl e
         | Inr name \<Rightarrow>
             (case form_item req ''password'' of
                Inl e \<Rightarrow> Inl e
              | Inr password \<Rightarrow>
                  if first (filter (\<lambda>u. username u = name) (user_table d)) \<noteq> None then
                    Inr ((Redirect EpRegister, [(''Username already exists.'', ''error'')], d),
                         None)
                  else
                    let new_user =
                          \<lparr>user_pk = next_pk (map user_pk (user_table d)), username = name,
                           password_hash = pw_hash password, has_completed_survey = False,
                           is_admin = False, bio = None, avatar_path = ''default.jpg''\<rparr>
                    in Inr ((Redirect EpSurvey,
                             [(''Account created! Please complete the survey to get started.'',
                               ''success'')],
                             d\<lparr>user_table := user_table d @ [new_user]\<rparr>),
                            Some new_user)))
      else Inr ((RenderRegister, [], d), None))"

section \<open>The survey route\<close>

text \<open>
  Assigning a list to a relationship of \<^verbatim>\<open>current_user\<close> replaces the user's rows of
  the association table by one row for each object of the list.
\<close>

definition assign_relationship :: "int \<Rightarrow> int list \<Rightarrow> (int \<times> int) set \<Rightarrow> (int \<times> int) set" where
  "assign_relationship uid pks tbl = {p \<in> tbl. fst p \<noteq> uid} \<union> (\<lambda>k. (uid, k)) ` set pks"

definition survey :: "db \<Rightarrow> user \<Rightarrow> request \<Rightarrow> error + reply" where
  "survey d cu req =
     (if req_method req = POST then
        let lang_ids = form_getlist req ''languages'';
            new_languages = filter (\<lambda>l. id_in (language_pk l) lang_ids) (language_table d);
            genre_ids = form_getlist req ''genres'';
            new_genres = filter (\<lambda>g. id_in (genre_pk g) genre_ids) (genre_table d);
            movie_ids = form_getlist req ''liked_movies'';
            new_movies = filter (\<lambda>m. id_in (movie_pk m) movie_ids) (movie_table d)
        in Inr (Redirect EpRecommendations,
                [(''Your preferences have been saved!'', ''success'')],
                d\<lparr>user_language_preferences :=
                     assign_relationship (user_pk cu) (map language_pk new_languages)
                       (user_language_preferences d),
                   user_genre_preferences :=
                     assign_relationship (user_pk cu) (map genre_pk new_genres)
                       (user_genre_preferences d),
                   user_liked_movies :=
                     assign_relationship (user_pk cu) (map movie_pk new_movies)
                       (user_liked_movies d),
                   user_table :=
                     map (\<lambda>u. if user_pk u = user_pk cu
                              then u\<lparr>has_completed_survey := True\<rparr> else u)
                         (user_table d)\<rparr>)
      else Inr (RenderSurvey, [], d))"

section \<open>The watchlist toggle route\<close>

definition quoted :: "string \<Rightarrow> string" where
  "quoted s = [CHR 0x22] @ s @ [CHR 0x22]"

definition toggle_watchlist :: "db \<Rightarrow> user \<Rightarrow> int \<Rightarrow> error + reply" where
  "toggle_watchlist d cu mid =
     (case get_movie d mid of
        None \<Rightarrow> Inl NotFound
      | Some movie \<Rightarrow>
          if movie \<in> set (watchlist d cu) then
            Inr (Redirect (EpMovieDetail mid),
                 [(quoted (title movie) @ '' removed from your watchlist.'', ''success'')],
                 d\<lparr>user_watchlist := user_watchlist d - {(user_pk cu, movie_pk movie)}\<rparr>)
          else
            Inr (Redirect (EpMovieDetail mid),
                 [(quoted (title movie) @ '' added to your watchlist.'', ''success'')],
                 d\<lparr>user_watchlist := insert (user_pk cu, movie_pk movie) (user_watchlist d)\<rparr>))"

section \<open>The review view of the admin panel\<close>



section \<open>The seed command\<close>

text \<open>
  \<^verbatim>\<open>seed-mock-data\<close> empties every table and inserts three languages, five genres and
  six movies; the primary keys count from 1 in the order of insertion.
\<close>

definition seed_languages :: "language list" where
  "seed_languages =
     [\<lparr>language_pk = 1, language_name = ''English''\<rparr>,
      \<lparr>language_pk = 2, language_name = ''Hindi''\<rparr>,
      \<lparr>language_pk = 3, language_name = ''Gujarati''\<rparr>]"

definition seed_genres :: "genre list" where
  "seed_genres =
     [\<lparr>genre_pk = 1, genre_name = ''Action''\<rparr>,
      \<lparr>genre_pk = 2, genre_name = ''Comedy''\<rparr>,
      \<lparr>genre_pk = 3, genre_name = ''Sci-Fi''\<rparr>,
      \<lparr>genre_pk = 4, genre_name = ''Drama''\<rparr>,
      \<lparr>genre_pk = 5, genre_name = ''Crime''\<rparr>]"

definition m1 :: movie where
  "m1 = \<lparr>movie_pk = 1, title = ''The Dark Knight'',
          overview = Some ''The Joker wreaks havoc on Gotham.'',
          poster_path = ''the_dark_knight.jpg''\<rparr>"

definition m2 :: movie where
  "m2 = \<lparr>movie_pk = 2, title = ''Inception'',
          overview = Some ''A thief who steals corporate secrets through dream-sharing technology.'',
          poster_path = ''inception.jpg''\<rparr>"

definition m3 :: movie where
  "m3 = \<lparr>movie_pk = 3, title = ''3 Idiots'',
          overview = Some ''Two friends are searching for their long lost companion.'',
          poster_path = ''3_idiots.jpg''\<rparr>"

definition m4 :: movie where
  "m4 = \<lparr>movie_pk = 4, title = ''Lagaan'',
          overview = Some ''A small village in Victorian India stakes their future on a game of cricket.'',
          poster_path = ''lagaan.jpg''\<rparr>"

definition m5 :: movie where
  "m5 = \<lparr>movie_pk = 5, title = ''Chhello Divas'',
          overview = Some ''The lives of eight friends and their journey of growing up.'',
          poster_path = ''chhello_divas.jpg''\<rparr>"

definition m6 :: movie where
  "m6 = \<lparr>movie_pk = 6, title = ''Hellaro'',
          overview = Some ''A group of women from the Kutch region of Gujarat express themselves through garba.'',
          poster_path = ''hellaro.jpg''\<rparr>"

definition seed_mock_data :: db where
  "seed_mock_data =
     \<lparr>user_table = [], movie_table = [m1, m2, m3, m4, m5, m6],
      genre_table = seed_genres, language_table = seed_languages, review_table = [],
      user_genre_preferences = {}, user_liked_movies = {}, user_language_preferences = {},
      movie_genres = {(1, 1), (1, 4), (1, 5), (2, 1), (2, 3), (3, 4), (3, 2), (4, 4),
                      (5, 2), (5, 4), (6, 4)},
      movie_languages = {(1, 1), (2, 1), (3, 2), (4, 2), (5, 3), (6, 3)},
      user_watchlist = {}\<rparr>"

section \<open>Sequences of requests\<close>


definition committed :: "db \<Rightarrow> error + reply \<Rightarrow> db" where
  "committed d r = (case r of Inl e \<Rightarrow> d | Inr (resp, flashes, d') \<Rightarrow> d')"




section \<open>Example stores and requests\<close>

text \<open>
  Two users on the seeded catalogue. Asha has completed the survey: she prefers English and
  Hindi, the genre Drama, and likes Inception. Ravi has just registered.
\<close>

definition asha :: user where
  "asha = \<lparr>user_pk = 1, username = ''asha'', password_hash = ''pbkdf2'',
            has_completed_survey = True, is_admin = False, bio = None,
            avatar_path = ''default.jpg''\<rparr>"

definition ravi :: user where
  "ravi = \<lparr>user_pk = 2, username = ''ravi'', password_hash = ''scrypt'',
            has_completed_survey = False, is_admin = False, bio = None,
            avatar_path = ''default.jpg''\<rparr>"

definition example_db :: db where
  "example_db =
     seed_mock_data\<lparr>user_table := [asha, ravi],
                    user_genre_preferences := {(1, 4)},
                    user_language_preferences := {(1, 1), (1, 2)},
                    user_liked_movies := {(1, 2)}\<rparr>"


definition no_language_db :: db where
  "no_language_db = example_db\<lparr>user_language_preferences := {}\<rparr>"

definition reviewed_db :: db where
  "reviewed_db =
     example_db\<lparr>review_table :=
       [\<lparr>review_pk = 1, rating = PyInt 4, review_text = Some ''Dark and gripping.'',
         timestamp = 100, user_id = 2, movie_id = 1\<rparr>,
        \<lparr>review_pk = 2, rating = PyInt 5, review_text = Some ''Mind-bending.'',
         timestamp = 200, user_id = 1, movie_id = 2\<rparr>]\<rparr>"


definition review_form :: request where
  "review_form = \<lparr>req_method = POST, form = [(''rating'', ''5''), (''review_text'', ''A classic.'')]\<rparr>"

definition no_rating_form :: request where
  "no_rating_form = \<lparr>req_method = POST, form = [(''review_text'', ''Still great.'')]\<rparr>"

definition text_rating_form :: request where
  "text_rating_form =
     \<lparr>req_method = POST, form = [(''rating'', ''great''), (''review_text'', ''Still great.'')]\<rparr>"

definition survey_form :: request where
  "survey_form =
     \<lparr>req_method = POST,
      form = [(''languages'', ''3''), (''genres'', ''2''), (''genres'', ''5''),
              (''liked_movies'', ''5'')]\<rparr>"

section \<open>Properties of the scorer\<close>

lemma set_unique_rows_fold:
  "set (fold (\<lambda>x seen. if x \<in> set seen then seen else seen @ [x]) xs acc) = set acc \<union> set xs"
  by (induction xs arbitrary: acc) auto

lemma set_unique_rows: "set (unique_rows xs) = set xs"
  by (simp add: unique_rows_def set_unique_rows_fold)

lemma set_candidate_movies:
  "set (candidate_movies d ids) =
     {m \<in> set (movie_table d). \<exists>l \<in> set (languages d m). language_pk l \<in> ids}"
  by (auto simp: candidate_movies_def set_unique_rows)

text \<open>Storing the value a key already has, or a new key, adds exactly that pair.\<close>

lemma dict_set_same:
  "\<forall>(k', v') \<in> set kvs. v' = f k' \<Longrightarrow> set (dict_set kvs k (f k)) = insert (k, f k) (set kvs)"
  by (induction kvs) (auto split: if_splits)

text \<open>A dict has each key once.\<close>

lemma dict_set_keys: "fst ` set (dict_set kvs k v) = insert k (fst ` set kvs)"
proof (induction kvs)
  case Nil
  then show ?case by simp
next
  case (Cons kv kvs)
  then show ?case by (cases kv) (simp add: insert_commute)
qed

lemma dict_set_distinct:
  "distinct (map fst kvs) \<Longrightarrow> distinct (map fst (dict_set kvs k v))"
proof (induction kvs)
  case Nil
  then show ?case by simp
next
  case (Cons kv kvs)
  obtain k' v' where kv: "kv = (k', v')" by (cases kv)
  show ?case
  proof (cases "k' = k")
    case True
    with Cons.prems kv show ?thesis by simp
  next
    case False
    have "k' \<notin> fst ` set (dict_set kvs k v)"
      using Cons.prems kv False by (simp add: dict_set_keys)
    with Cons kv False show ?thesis by simp
  qed
qed

lemma recommendations_loop_distinct:
  "distinct (map fst scores) \<Longrightarrow>
   distinct (map fst (recommendations_loop d pref seed liked ms scores))"
  by (induction ms arbitrary: scores) (simp_all add: Let_def dict_set_distinct)

text \<open>
  The loop invariant: every entry of the dict carries the score of its movie. Then the
  loop adds the candidates that are not liked and score above 0, each with its score.
\<close>

lemma recommendations_loop_set:
  "\<forall>(m, s) \<in> set scores. s = movie_score pref seed (movie_genre_ids d m) \<Longrightarrow>
   set (recommendations_loop d pref seed liked ms scores) =
     set scores \<union>
     {(m, s). m \<in> set ms \<and> movie_pk m \<notin> liked \<and>
              s = movie_score pref seed (movie_genre_ids d m) \<and> 0 < s}"
proof (induction ms arbitrary: scores)
  case Nil
  then show ?case by simp
next
  case (Cons m ms)
  let ?f = "\<lambda>m. movie_score pref seed (movie_genre_ids d m)"
  show ?case
  proof (cases "movie_pk m \<in> liked \<or> \<not> 0 < ?f m")
    case True
    then show ?thesis using Cons.IH[OF Cons.prems] by (auto simp: Let_def)
  next
    case False
    have eq: "set (dict_set scores m (?f m)) = insert (m, ?f m) (set scores)"
      using Cons.prems by (intro dict_set_same[of scores ?f m]) auto
    have inv: "\<forall>(m', s) \<in> set (dict_set scores m (?f m)). s = ?f m'"
      using Cons.prems unfolding eq by auto
    show ?thesis using False Cons.IH[OF inv] unfolding eq by (auto simp: Let_def)
  qed
qed

lemma movie_score_formula:
  "movie_score pref seed gs = 10 * int (card (gs \<inter> pref)) + 5 * int (card (gs \<inter> seed))"
  by (simp add: movie_score_def Let_def Int_commute)

lemma sorted_recommendations_desc:
  "sorted_wrt (\<lambda>a b. snd b \<le> snd a) (sorted_recommendations items)"
proof -
  have "sorted (map (\<lambda>item. - snd item) (sorted_recommendations items))"
    unfolding sorted_recommendations_def by (rule sorted_sort_key)
  then show ?thesis by (simp add: sorted_map)
qed

lemma set_sorted_recommendations: "set (sorted_recommendations items) = set items"
  by (simp add: sorted_recommendations_def)

lemma distinct_map_insort_key:
  "distinct (map g (insort_key f x xs)) = (g x \<notin> g ` set xs \<and> distinct (map g xs))"
  by (induction xs) (auto simp: set_insort_key)

lemma distinct_map_sort_key: "distinct (map g (sort_key f xs)) = distinct (map g xs)"
  by (induction xs) (simp_all add: distinct_map_insort_key)

lemma distinct_sorted_recommendations:
  "distinct (map fst (sorted_recommendations items)) = distinct (map fst items)"
  by (simp add: sorted_recommendations_def distinct_map_sort_key)

lemma recommendations_render:
  assumes "has_completed_survey cu"
  shows "\<exists>recs. recommendations d cu = Inr (RenderRecommendations recs, [], d) \<and>
     set recs =
       {(m, s). m \<in> set (candidate_movies d (user_pref_lang_ids d cu)) \<and>
                movie_pk m \<notin> liked_movie_ids d cu \<and>
                s = movie_score (user_pref_genre_ids d cu) (seed_movie_genre_ids d cu)
                      (movie_genre_ids d m) \<and> 0 < s} \<and>
     distinct (map fst recs) \<and>
     sorted_wrt (\<lambda>a b. snd b \<le> snd a) recs"
  using assms
  by (simp add: recommendations_def Let_def set_sorted_recommendations
      recommendations_loop_set sorted_recommendations_desc recommendations_loop_distinct
      distinct_sorted_recommendations)

lemma example_recommendations:
  "recommendations example_db asha =
     Inr (RenderRecommendations [(m1, 15), (m3, 10), (m4, 10)], [], example_db)"
  by code_simp

text \<open>
  C1. A user who has completed the survey gets a rendered list. Whenever the route renders
  a list, its pairs are exactly the candidate movies that are not liked, each with the
  score 10 times the number of its genres among the preferred genres plus 5 times the
  number of its genres among the genres of the liked movies, without the candidates of
  score 0; no movie is listed twice; and the list is in descending order of score.
\<close>

theorem recommendations_score_filter_order:
  "(has_completed_survey cu \<longrightarrow>
      (\<exists>recs. recommendations d cu = Inr (RenderRecommendations recs, [], d))) \<and>
   (recommendations d cu = Inr (RenderRecommendations recs, fl, d') \<longrightarrow>
      set recs =
        {(m, s). m \<in> set (candidate_movies d (user_pref_lang_ids d cu)) \<and>
                 movie_pk m \<notin> liked_movie_ids d cu \<and>
                 s = 10 * int (card (movie_genre_ids d m \<inter> user_pref_genre_ids d cu)) +
                     5 * int (card (movie_genre_ids d m \<inter> seed_movie_genre_ids d cu)) \<and>
                 s \<noteq> 0} \<and>
      distinct (map fst recs) \<and>
      sorted_wrt (\<lambda>a b. snd b \<le> snd a) recs)"
proof (cases "has_completed_survey cu")
  case False
  then show ?thesis by (simp add: recommendations_def)
next
  case True
  obtain recs0 where r: "recommendations d cu = Inr (RenderRecommendations recs0, [], d)"
    and s: "set recs0 =
       {(m, s). m \<in> set (candidate_movies d (user_pref_lang_ids d cu)) \<and>
                movie_pk m \<notin> liked_movie_ids d cu \<and>
                s = movie_score (user_pref_genre_ids d cu) (seed_movie_genre_ids d cu)
                      (movie_genre_ids d m) \<and> 0 < s}"
    and o: "distinct (map fst recs0)" "sorted_wrt (\<lambda>a b. snd b \<le> snd a) recs0"
    using recommendations_render[OF True] by blast
  have "\<And>m s. (s = movie_score (user_pref_genre_ids d cu) (seed_movie_genre_ids d cu)
                      (movie_genre_ids d m) \<and> 0 < s) =
         (s = 10 * int (card (movie_genre_ids d m \<inter> user_pref_genre_ids d cu)) +
              5 * int (card (movie_genre_ids d m \<inter> seed_movie_genre_ids d cu)) \<and>
          s \<noteq> 0)"
    by (auto simp: movie_score_formula)
  then show ?thesis using r s o by auto
qed

theorem recommendations_score_filter_order_witness:
  "has_completed_survey asha \<and>
   recommendations example_db asha =
     Inr (RenderRecommendations [(m1, 15), (m3, 10), (m4, 10)], [], example_db) \<and>
   10 * int (card (movie_genre_ids example_db m1 \<inter> user_pref_genre_ids example_db asha)) +
     5 * int (card (movie_genre_ids example_db m1 \<inter> seed_movie_genre_ids example_db asha)) = 15 \<and>
   sorted_wrt (\<lambda>a b. snd b \<le> snd a) [(m1, 15 :: int), (m3, 10), (m4, 10)]"
proof -
  have h: "has_completed_survey asha" by (simp add: asha_def)
  have c: "10 * int (card (movie_genre_ids example_db m1 \<inter> user_pref_genre_ids example_db asha)) +
     5 * int (card (movie_genre_ids example_db m1 \<inter> seed_movie_genre_ids example_db asha)) = 15"
    by code_simp
  show ?thesis
    using h c example_recommendations
      recommendations_score_filter_order[of asha example_db
        "[(m1, 15), (m3, 10), (m4, 10)]" "[]" example_db]
    by simp
qed

text \<open>
  C2. A movie of the user's liked movies is in no list that the recommendations route
  renders, whatever its score would be.
\<close>

theorem liked_movie_never_recommended:
  assumes "m \<in> set (liked_movies d cu)"
    and "recommendations d cu = Inr (RenderRecommendations recs, fl, d')"
  shows "m \<notin> fst ` set recs"
proof (cases "has_completed_survey cu")
  case False
  with assms(2) show ?thesis by (simp add: recommendations_def)
next
  case True
  from recommendations_render[OF True, of d] assms(2)
  have "set recs \<subseteq> {(m, s). movie_pk m \<notin> liked_movie_ids d cu}" by auto
  moreover have "movie_pk m \<in> liked_movie_ids d cu"
    using assms(1) by (simp add: liked_movie_ids_def)
  ultimately show ?thesis by auto
qed

theorem liked_movie_never_recommended_witness:
  "m2 \<in> set (liked_movies example_db asha) \<and>
   recommendations example_db asha =
     Inr (RenderRecommendations [(m1, 15), (m3, 10), (m4, 10)], [], example_db) \<and>
   m2 \<notin> fst ` set [(m1, 15 :: int), (m3, 10), (m4, 10)]"
proof -
  have h: "m2 \<in> set (liked_movies example_db asha)" by code_simp
  show ?thesis
    using h example_recommendations
      liked_movie_never_recommended[OF h example_recommendations]
    by simp
qed

text \<open>A user who has not completed the survey is sent to it, and nothing is scored.\<close>

lemma recommendations_redirects_unsurveyed:
  "\<not> has_completed_survey cu \<Longrightarrow>
   recommendations d cu =
     Inr (Redirect EpSurvey,
          [(''Please complete the survey to get recommendations.'', ''info'')], d)"
  by (simp add: recommendations_def)

text \<open>
  C3, as the code has it. The route first sends a user who has not completed the survey to
  the survey, so such a user gets a redirect and no list, also with no preferred language
  (the counterexample: Ravi). For a user who has completed the survey and has no
  preferred language, the route renders the empty list.
\<close>

theorem no_languages_no_recommendations:
  assumes "has_completed_survey cu" and "preferred_languages d cu = []"
  shows "recommendations d cu = Inr (RenderRecommendations [], [], d)"
proof -
  have "set (candidate_movies d (user_pref_lang_ids d cu)) = {}"
    using assms(2) by (simp add: set_candidate_movies user_pref_lang_ids_def)
  then have "candidate_movies d (user_pref_lang_ids d cu) = []" by simp
  then show ?thesis
    using assms(1) by (simp add: recommendations_def sorted_recommendations_def)
qed

theorem no_languages_no_recommendations_witness:
  "has_completed_survey asha \<and> preferred_languages no_language_db asha = [] \<and>
   recommendations no_language_db asha = Inr (RenderRecommendations [], [], no_language_db)"
proof -
  have h1: "has_completed_survey asha" by (simp add: asha_def)
  have h2: "preferred_languages no_language_db asha = []" by code_simp
  show ?thesis using h1 h2 no_languages_no_recommendations[OF h1 h2] by simp
qed

theorem no_languages_redirect_counterexample:
  "preferred_languages example_db ravi = [] \<and>
   recommendations example_db ravi =
     Inr (Redirect EpSurvey,
          [(''Please complete the survey to get recommendations.'', ''info'')], example_db) \<and>
   recommendations example_db ravi \<noteq> Inr (RenderRecommendations [], [], example_db)"
proof -
  have "preferred_languages example_db ravi = []" by code_simp
  moreover have "\<not> has_completed_survey ravi" by (simp add: ravi_def)
  ultimately show ?thesis by (simp add: recommendations_def)
qed

text \<open>
  C4. A movie none of whose languages is a preferred language of the user is in no list
  that the recommendations route renders, whatever genres it has.
\<close>

theorem other_language_never_recommended:
  assumes "language_pk ` set (languages d m) \<inter> user_pref_lang_ids d cu = {}"
    and "recommendations d cu = Inr (RenderRecommendations recs, fl, d')"
  shows "m \<notin> fst ` set recs"
proof (cases "has_completed_survey cu")
  case False
  with assms(2) show ?thesis by (simp add: recommendations_def)
next
  case True
  from recommendations_render[OF True, of d] assms(2)
  have "set recs \<subseteq> {(m, s). m \<in> set (candidate_movies d (user_pref_lang_ids d cu))}"
    by auto
  moreover have "m \<notin> set (candidate_movies d (user_pref_lang_ids d cu))"
    using assms(1) by (auto simp: set_candidate_movies)
  ultimately show ?thesis by auto
qed

theorem other_language_never_recommended_witness:
  "language_pk ` set (languages example_db m5) \<inter> user_pref_lang_ids example_db asha = {} \<and>
   recommendations example_db asha =
     Inr (RenderRecommendations [(m1, 15), (m3, 10), (m4, 10)], [], example_db) \<and>
   movie_genre_ids example_db m5 \<inter> user_pref_genre_ids example_db asha = {4} \<and>
   m5 \<notin> fst ` set [(m1, 15 :: int), (m3, 10), (m4, 10)]"
proof -
  have h: "language_pk ` set (languages example_db m5) \<inter> user_pref_lang_ids example_db asha = {}"
    by code_simp
  have g: "movie_genre_ids example_db m5 \<inter> user_pref_genre_ids example_db asha = {4}"
    by code_simp
  show ?thesis
    using h g example_recommendations
      other_language_never_recommended[OF h example_recommendations]
    by simp
qed

lemma card_Int_insert_mono: "card (A \<inter> G) \<le> card (insert g A \<inter> G)"
proof (cases "finite (A \<inter> G)")
  case True
  then have "finite (insert g A \<inter> G)" by (simp add: Int_insert_left)
  then show ?thesis by (intro card_mono) auto
next
  case False
  then show ?thesis by simp
qed

text \<open>
  C5. The score does not decrease when a genre is added to the preferred genres: for the
  score of the loop body and any three sets of genre ids, and for any user and movie of a
  store when a row for the user and a genre is added to \<^verbatim>\<open>user_genre_preferences\<close>.
\<close>

theorem movie_score_monotone:
  "movie_score pref seed gs \<le> movie_score (insert g pref) seed gs \<and>
   movie_score (user_pref_genre_ids d cu) (seed_movie_genre_ids d cu) (movie_genre_ids d m)
     \<le> movie_score
          (user_pref_genre_ids
             (d\<lparr>user_genre_preferences :=
                  insert (user_pk cu, gid) (user_genre_preferences d)\<rparr>) cu)
          (seed_movie_genre_ids
             (d\<lparr>user_genre_preferences :=
                  insert (user_pk cu, gid) (user_genre_preferences d)\<rparr>) cu)
          (movie_genre_ids
             (d\<lparr>user_genre_preferences :=
                  insert (user_pk cu, gid) (user_genre_preferences d)\<rparr>) m)"
proof
  show "movie_score pref seed gs \<le> movie_score (insert g pref) seed gs"
    using card_Int_insert_mono[of pref gs g] by (simp add: movie_score_def Let_def)
next
  let ?d' = "d\<lparr>user_genre_preferences := insert (user_pk cu, gid) (user_genre_preferences d)\<rparr>"
  have seed: "seed_movie_genre_ids ?d' cu = seed_movie_genre_ids d cu"
    by (simp add: seed_movie_genre_ids_def liked_movies_def genres_def)
  have mg: "movie_genre_ids ?d' m = movie_genre_ids d m"
    by (simp add: movie_genre_ids_def genres_def)
  have sub: "user_pref_genre_ids d cu \<subseteq> user_pref_genre_ids ?d' cu"
    by (auto simp: user_pref_genre_ids_def preferred_genres_def)
  have fin: "finite (user_pref_genre_ids ?d' cu \<inter> movie_genre_ids d m)"
    by (simp add: movie_genre_ids_def)
  have "card (user_pref_genre_ids d cu \<inter> movie_genre_ids d m)
          \<le> card (user_pref_genre_ids ?d' cu \<inter> movie_genre_ids d m)"
    using sub by (intro card_mono[OF fin]) auto
  then show "movie_score (user_pref_genre_ids d cu) (seed_movie_genre_ids d cu)
       (movie_genre_ids d m)
     \<le> movie_score (user_pref_genre_ids ?d' cu) (seed_movie_genre_ids ?d' cu)
          (movie_genre_ids ?d' m)"
    unfolding seed mg by (simp add: movie_score_def Let_def)
qed

section \<open>Properties of the review routes\<close>

lemma get_movie_Some:
  "get_movie d mid = Some m \<Longrightarrow> movie_pk m = mid \<and> m \<in> set (movie_table d)"
  by (auto simp: get_movie_def find_Some_iff)


lemma first_None_iff: "first xs = None \<longleftrightarrow> xs = []"
  by (simp add: first_def split: list.splits)




subsection \<open>The invariant along a sequence of requests\<close>









subsection \<open>Validation failures\<close>

text \<open>The three failures that the routes answer with a message and a redirect.\<close>

lemma movie_detail_missing_rating:
  assumes "get_movie d mid = Some m" and "req_method req = POST"
    and "first (filter (\<lambda>r. user_id r = user_pk cu) (reviews d m)) = None"
    and "falsy (form_get req ''rating'')"
  shows "movie_detail d cu now req mid =
           Inr (Redirect (EpMovieDetail mid), [(''You must provide a rating.'', ''error'')], d)"
  using assms by (simp add: movie_detail_def Let_def)

lemma register_duplicate_username:
  assumes "req_method req = POST" and "form_item req ''username'' = Inr name"
    and "form_item req ''password'' = Inr password"
    and "u \<in> set (user_table d)" and "username u = name"
  shows "register d None pw_hash req =
           Inr ((Redirect EpRegister, [(''Username already exists.'', ''error'')], d), None)"
proof -
  have "filter (\<lambda>u. username u = name) (user_table d) \<noteq> []"
    using assms(4,5) by (auto simp: filter_empty_conv)
  then have "first (filter (\<lambda>u. username u = name) (user_table d)) \<noteq> None"
    by (simp add: first_None_iff)
  then show ?thesis using assms(1-3) by (simp add: register_def)
qed

text \<open>The review edit route has no such check: without the field it raises.\<close>

lemma edit_review_missing_rating:
  assumes "get_review d rid = Some rv"
    and "map_option user_pk (author d rv) = Some (user_pk cu)"
    and "req_method req = POST" and "form_get req ''rating'' = None"
  shows "edit_review d cu req rid = Inl (BadRequestKeyError ''rating'')"
  using assms by (simp add: edit_review_def form_item_def form_get_def)

text \<open>
  C7. The review edit route does not treat a missing rating as the other routes do:
  Asha edits her review with a form that has no rating field, and the route raises
  \<^verbatim>\<open>BadRequestKeyError\<close>, with no message and no redirect. The same form sent to the
  movie detail route is answered with a message and a redirect.
\<close>

theorem edit_review_missing_rating_raises:
  "edit_review reviewed_db asha no_rating_form 2 = Inl (BadRequestKeyError ''rating'') \<and>
   movie_detail reviewed_db asha 300 no_rating_form 1 =
     Inr (Redirect (EpMovieDetail 1), [(''You must provide a rating.'', ''error'')], reviewed_db)"
  by code_simp

subsection \<open>The type of a stored rating\<close>

text \<open>A review that the movie detail route adds has an integer rating.\<close>

lemma movie_detail_rating_int:
  assumes "movie_detail d cu now req mid = Inr (resp, fl, d')"
    and "r \<in> set (review_table d')" and "r \<notin> set (review_table d)"
  shows "\<exists>n. rating r = PyInt n"
  using assms
  by (auto simp: movie_detail_def Let_def split: option.splits if_splits)

text \<open>A review that the review edit route updates has the form field as its rating.\<close>

lemma edit_review_rating_str:
  assumes "edit_review d cu req rid = Inr (resp, fl, d')" and "req_method req = POST"
    and "r \<in> set (review_table d')" and "review_pk r = rid"
  shows "\<exists>s. form_get req ''rating'' = Some s \<and> rating r = PyStr s"
proof (cases "get_review d rid")
  case None
  then show ?thesis using assms(1) by (simp add: edit_review_def)
next
  case (Some rv)
  have pk: "review_pk rv = rid" using Some by (auto simp: get_review_def find_Some_iff)
  show ?thesis
  proof (cases "form_item req ''rating''")
    case (Inl e)
    with assms(1,2) Some show ?thesis by (simp add: edit_review_def split: if_splits)
  next
    case rating: (Inr s)
    show ?thesis
    proof (cases "form_item req ''review_text''")
      case (Inl e)
      with assms(1,2) Some rating show ?thesis by (simp add: edit_review_def split: if_splits)
    next
      case (Inr t)
      have "d' = d\<lparr>review_table :=
               map (\<lambda>x. if review_pk x = rid
                        then x\<lparr>rating := PyStr s, review_text := Some t\<rparr> else x)
                   (review_table d)\<rparr>"
        using assms(1,2) Some rating Inr pk by (simp add: edit_review_def split: if_splits)
      then have "review_table d' =
               map (\<lambda>x. if review_pk x = rid
                        then x\<lparr>rating := PyStr s, review_text := Some t\<rparr> else x)
                   (review_table d)"
        by simp
      then have "r \<in> (\<lambda>x. if review_pk x = rid
                        then x\<lparr>rating := PyStr s, review_text := Some t\<rparr> else x)
                    ` set (review_table d)"
        using assms(3) by (simp only: set_map)
      then obtain x where "r = (if review_pk x = rid
                        then x\<lparr>rating := PyStr s, review_text := Some t\<rparr> else x)"
        by (rule imageE)
      then have "rating r = PyStr s" using assms(4) by (simp split: if_splits)
      moreover have "form_get req ''rating'' = Some s"
        using rating by (simp add: form_item_def form_get_def split: option.splits)
      ultimately show ?thesis by blast
    qed
  qed
qed

text \<open>
  C8. The review edit route stores the rating field as it comes: Asha edits her review
  with the rating \<^verbatim>\<open>great\<close>, and the stored rating is that string. The movie detail route
  raises \<^verbatim>\<open>ValueError\<close> on the same field, and stores the integer 5 for the field \<^verbatim>\<open>5\<close>.
\<close>

theorem edit_review_stores_text_rating:
  "edit_review reviewed_db asha text_rating_form 2 =
     Inr (Redirect (EpMovieDetail 2), [(''Your review has been updated!'', ''success'')],
          reviewed_db\<lparr>review_table :=
            [\<lparr>review_pk = 1, rating = PyInt 4, review_text = Some ''Dark and gripping.'',
              timestamp = 100, user_id = 2, movie_id = 1\<rparr>,
             \<lparr>review_pk = 2, rating = PyStr ''great'', review_text = Some ''Still great.'',
              timestamp = 200, user_id = 1, movie_id = 2\<rparr>]\<rparr>) \<and>
   movie_detail reviewed_db asha 300 text_rating_form 1 = Inl ValueError \<and>
   map rating (review_table (committed reviewed_db (movie_detail reviewed_db asha 300 review_form 1)))
     = [PyInt 4, PyInt 5, PyInt 5]"
  by code_simp

section \<open>Properties of the watchlist toggle\<close>

text \<open>
  C9. For a movie of the catalogue, one toggle redirects to the movie's page and flips the
  membership of the movie in the user's watchlist; every other row of the watchlist table
  and every other part of the store stay as they were; a second toggle gives back the
  store from before the first.
\<close>

theorem toggle_watchlist_involution:
  assumes "get_movie d mid = Some m"
  shows "\<exists>fl1 fl2 d1.
     toggle_watchlist d cu mid = Inr (Redirect (EpMovieDetail mid), fl1, d1) \<and>
     ((user_pk cu, mid) \<in> user_watchlist d1 \<longleftrightarrow> (user_pk cu, mid) \<notin> user_watchlist d) \<and>
     (m \<in> set (watchlist d1 cu) \<longleftrightarrow> m \<notin> set (watchlist d cu)) \<and>
     (\<forall>p. p \<noteq> (user_pk cu, mid) \<longrightarrow> (p \<in> user_watchlist d1 \<longleftrightarrow> p \<in> user_watchlist d)) \<and>
     d1\<lparr>user_watchlist := user_watchlist d\<rparr> = d \<and>
     toggle_watchlist d1 cu mid = Inr (Redirect (EpMovieDetail mid), fl2, d)"
proof -
  from get_movie_Some[OF assms] have pk: "movie_pk m = mid" and mem: "m \<in> set (movie_table d)"
    by auto
  have w: "\<And>W. m \<in> set (watchlist (d\<lparr>user_watchlist := W\<rparr>) cu) \<longleftrightarrow> (user_pk cu, mid) \<in> W"
    using pk mem by (simp add: watchlist_def)
  have w0: "m \<in> set (watchlist d cu) \<longleftrightarrow> (user_pk cu, mid) \<in> user_watchlist d"
    using pk mem by (simp add: watchlist_def)
  have g: "\<And>W. get_movie (d\<lparr>user_watchlist := W\<rparr>) mid = Some m"
    using assms by (simp add: get_movie_def)
  show ?thesis
  proof (cases "(user_pk cu, mid) \<in> user_watchlist d")
    case True
    then have "insert (user_pk cu, mid) (user_watchlist d - {(user_pk cu, mid)}) = user_watchlist d"
      by auto
    with True show ?thesis
      using assms pk w w0 g by (auto simp: toggle_watchlist_def)
  next
    case False
    then have "insert (user_pk cu, mid) (user_watchlist d) - {(user_pk cu, mid)} = user_watchlist d"
      by auto
    with False show ?thesis
      using assms pk w w0 g by (auto simp: toggle_watchlist_def)
  qed
qed

theorem toggle_watchlist_involution_witness:
  "get_movie example_db 3 = Some m3 \<and>
   (\<exists>fl1 fl2 d1.
      toggle_watchlist example_db asha 3 = Inr (Redirect (EpMovieDetail 3), fl1, d1) \<and>
      watchlist example_db asha = [] \<and> watchlist d1 asha = [m3] \<and>
      toggle_watchlist d1 asha 3 = Inr (Redirect (EpMovieDetail 3), fl2, example_db))"
proof -
  have h: "get_movie example_db 3 = Some m3" by code_simp
  have e: "watchlist example_db asha = []" by code_simp
  have w: "watchlist (example_db\<lparr>user_watchlist := {(1, 3)}\<rparr>) asha = [m3]" by code_simp
  have t: "toggle_watchlist example_db asha 3 =
     Inr (Redirect (EpMovieDetail 3), [(quoted (title m3) @ '' added to your watchlist.'', ''success'')],
          example_db\<lparr>user_watchlist := {(1, 3)}\<rparr>)"
    by code_simp
  from toggle_watchlist_involution[OF h, of asha] t
  obtain fl2 where "toggle_watchlist (example_db\<lparr>user_watchlist := {(1, 3)}\<rparr>) asha 3 =
      Inr (Redirect (EpMovieDetail 3), fl2, example_db)"
    by auto
  with h e w t show ?thesis by blast
qed

section \<open>Properties of the survey\<close>

lemma assign_relationship_own:
  "(uid, k) \<in> assign_relationship uid pks tbl \<longleftrightarrow> k \<in> set pks"
  by (auto simp: assign_relationship_def)

lemma filter_selected:
  "filter (\<lambda>x. pk x \<in> set (map pk (filter (\<lambda>y. id_in (pk y) vals) xs))) xs
     = filter (\<lambda>x. id_in (pk x) vals) xs"
  by (rule filter_cong) auto

lemma find_map_flag:
  "find (\<lambda>u. user_pk u = i)
     (map (\<lambda>u. if user_pk u = i then u\<lparr>has_completed_survey := True\<rparr> else u) us)
     = map_option (\<lambda>u. u\<lparr>has_completed_survey := True\<rparr>) (find (\<lambda>u. user_pk u = i) us)"
  by (induction us) auto

lemma digit_not_space: "is_digit c \<Longrightarrow> \<not> is_space c"
  by (auto simp: is_digit_def is_space_def)

lemma digit_not_sign: "is_digit c \<Longrightarrow> c \<noteq> CHR ''-'' \<and> c \<noteq> CHR ''+''"
  by (auto simp: is_digit_def)

lemma strip_numeral: "numeral v \<Longrightarrow> strip v = v"
proof -
  assume n: "numeral v"
  then have ne: "v \<noteq> []" and dg: "\<forall>c \<in> set v. is_digit c"
    by (simp_all add: numeral_def list_all_iff)
  have "\<not> is_space (hd v)" using ne dg by (simp add: digit_not_space)
  then have a: "dropWhile is_space v = v" by (simp add: dropWhile_eq_self_iff)
  have "\<not> is_space (hd (rev v))" using ne dg by (simp add: hd_rev digit_not_space)
  then have "dropWhile is_space (rev v) = rev v" by (simp add: dropWhile_eq_self_iff)
  with a show "strip v = v" by (simp add: strip_def)
qed

text \<open>A plain decimal numeral selects the id that is its value.\<close>

lemma form_id_numeral: "numeral v \<Longrightarrow> form_id v = Some (digits_value v)"
proof -
  assume n: "numeral v"
  then obtain c cs where v: "v = c # cs" by (cases v) (simp_all add: numeral_def)
  have "is_digit c" using n v by (simp add: numeral_def)
  then have "c \<noteq> CHR ''-''" "c \<noteq> CHR ''+''" using digit_not_sign by blast+
  then show ?thesis
    using n v strip_numeral[OF n] by (simp add: form_id_def numeral_def)
qed

lemma id_in_numerals:
  "list_all numeral vals \<Longrightarrow> id_in i vals \<longleftrightarrow> i \<in> digits_value ` set vals"
  by (auto simp: id_in_def list_all_iff form_id_numeral)

lemma survey_reply:
  "req_method req = POST \<Longrightarrow>
   \<exists>d'. survey d cu req =
          Inr (Redirect EpRecommendations,
               [(''Your preferences have been saved!'', ''success'')], d') \<and>
        preferred_languages d' cu =
          filter (\<lambda>l. id_in (language_pk l) (form_getlist req ''languages''))
            (language_table d) \<and>
        preferred_genres d' cu =
          filter (\<lambda>g. id_in (genre_pk g) (form_getlist req ''genres'')) (genre_table d) \<and>
        liked_movies d' cu =
          filter (\<lambda>m. id_in (movie_pk m) (form_getlist req ''liked_movies''))
            (movie_table d) \<and>
        get_user d' (user_pk cu) =
          map_option (\<lambda>u. u\<lparr>has_completed_survey := True\<rparr>) (get_user d (user_pk cu))"
  by (simp add: survey_def Let_def preferred_languages_def preferred_genres_def
      liked_movies_def get_user_def assign_relationship_own filter_selected find_map_flag
      del: set_map)

text \<open>
  C10. A submitted survey redirects to the recommendations, and the user's row afterwards
  is the row from before with the survey flag set. For each of the three lists of the
  form whose values are plain decimal numerals, the relationship afterwards
  (preferred languages, preferred genres, liked movies) holds the rows of the catalogue
  whose id is the value of one of the numerals, whatever was stored before. A user whose
  flag is not set is redirected from the recommendations to the survey, with the store as
  it was.
\<close>

theorem survey_replaces_preferences:
  "(req_method req = POST \<longrightarrow>
      (\<exists>d'. survey d cu req =
               Inr (Redirect EpRecommendations,
                    [(''Your preferences have been saved!'', ''success'')], d') \<and>
            get_user d' (user_pk cu) =
              map_option (\<lambda>u. u\<lparr>has_completed_survey := True\<rparr>) (get_user d (user_pk cu)) \<and>
            (list_all numeral (form_getlist req ''languages'') \<longrightarrow>
               preferred_languages d' cu =
                 filter (\<lambda>l. language_pk l \<in> digits_value ` set (form_getlist req ''languages''))
                   (language_table d)) \<and>
            (list_all numeral (form_getlist req ''genres'') \<longrightarrow>
               preferred_genres d' cu =
                 filter (\<lambda>g. genre_pk g \<in> digits_value ` set (form_getlist req ''genres''))
                   (genre_table d)) \<and>
            (list_all numeral (form_getlist req ''liked_movies'') \<longrightarrow>
               liked_movies d' cu =
                 filter (\<lambda>m. movie_pk m \<in> digits_value ` set (form_getlist req ''liked_movies''))
                   (movie_table d)))) \<and>
   (\<not> has_completed_survey cu \<longrightarrow>
      recommendations d cu =
        Inr (Redirect EpSurvey,
             [(''Please complete the survey to get recommendations.'', ''info'')], d))"
proof (intro conjI impI)
  assume "req_method req = POST"
  from survey_reply[OF this, of d cu] obtain d' where
    r: "survey d cu req =
          Inr (Redirect EpRecommendations,
               [(''Your preferences have been saved!'', ''success'')], d')"
    and l: "preferred_languages d' cu =
          filter (\<lambda>l. id_in (language_pk l) (form_getlist req ''languages''))
            (language_table d)"
    and g: "preferred_genres d' cu =
          filter (\<lambda>g. id_in (genre_pk g) (form_getlist req ''genres'')) (genre_table d)"
    and m: "liked_movies d' cu =
          filter (\<lambda>m. id_in (movie_pk m) (form_getlist req ''liked_movies''))
            (movie_table d)"
    and u: "get_user d' (user_pk cu) =
          map_option (\<lambda>u. u\<lparr>has_completed_survey := True\<rparr>) (get_user d (user_pk cu))"
    by blast
  show "\<exists>d'. survey d cu req =
               Inr (Redirect EpRecommendations,
                    [(''Your preferences have been saved!'', ''success'')], d') \<and>
            get_user d' (user_pk cu) =
              map_option (\<lambda>u. u\<lparr>has_completed_survey := True\<rparr>) (get_user d (user_pk cu)) \<and>
            (list_all numeral (form_getlist req ''languages'') \<longrightarrow>
               preferred_languages d' cu =
                 filter (\<lambda>l. language_pk l \<in> digits_value ` set (form_getlist req ''languages''))
                   (language_table d)) \<and>
            (list_all numeral (form_getlist req ''genres'') \<longrightarrow>
               preferred_genres d' cu =
                 filter (\<lambda>g. genre_pk g \<in> digits_value ` set (form_getlist req ''genres''))
                   (genre_table d)) \<and>
            (list_all numeral (form_getlist req ''liked_movies'') \<longrightarrow>
               liked_movies d' cu =
                 filter (\<lambda>m. movie_pk m \<in> digits_value ` set (form_getlist req ''liked_movies''))
                   (movie_table d))"
    using r u by (intro exI[of _ d']) (simp add: l g m id_in_numerals)
next
  assume "\<not> has_completed_survey cu"
  then show "recommendations d cu =
        Inr (Redirect EpSurvey,
             [(''Please complete the survey to get recommendations.'', ''info'')], d)"
    by (rule recommendations_redirects_unsurveyed)
qed

theorem survey_replaces_preferences_witness:
  "req_method survey_form = POST \<and> \<not> has_completed_survey ravi \<and>
   list_all numeral (form_getlist survey_form ''languages'') \<and>
   list_all numeral (form_getlist survey_form ''genres'') \<and>
   list_all numeral (form_getlist survey_form ''liked_movies'') \<and>
   preferred_languages example_db asha =
     [\<lparr>language_pk = 1, language_name = ''English''\<rparr>,
      \<lparr>language_pk = 2, language_name = ''Hindi''\<rparr>] \<and>
   (\<exists>d'. survey example_db asha survey_form =
            Inr (Redirect EpRecommendations,
                 [(''Your preferences have been saved!'', ''success'')], d') \<and>
         preferred_languages d' asha = [\<lparr>language_pk = 3, language_name = ''Gujarati''\<rparr>] \<and>
         preferred_genres d' asha =
           [\<lparr>genre_pk = 2, genre_name = ''Comedy''\<rparr>, \<lparr>genre_pk = 5, genre_name = ''Crime''\<rparr>] \<and>
         liked_movies d' asha = [m5]) \<and>
   (\<exists>d'. survey example_db ravi survey_form =
            Inr (Redirect EpRecommendations,
                 [(''Your preferences have been saved!'', ''success'')], d') \<and>
         get_user d' 2 = Some (ravi\<lparr>has_completed_survey := True\<rparr>)) \<and>
   recommendations example_db ravi =
     Inr (Redirect EpSurvey,
          [(''Please complete the survey to get recommendations.'', ''info'')], example_db)"
proof -
  have p: "req_method survey_form = POST" by (simp add: survey_form_def)
  have f: "\<not> has_completed_survey ravi" by (simp add: ravi_def)
  have n: "list_all numeral (form_getlist survey_form ''languages'')"
    "list_all numeral (form_getlist survey_form ''genres'')"
    "list_all numeral (form_getlist survey_form ''liked_movies'')"
    by code_simp+
  have b: "preferred_languages example_db asha =
     [\<lparr>language_pk = 1, language_name = ''English''\<rparr>,
      \<lparr>language_pk = 2, language_name = ''Hindi''\<rparr>]" by code_simp
  have l: "filter (\<lambda>l. language_pk l \<in> digits_value ` set (form_getlist survey_form ''languages''))
             (language_table example_db) = [\<lparr>language_pk = 3, language_name = ''Gujarati''\<rparr>]"
    by code_simp
  have g: "filter (\<lambda>g. genre_pk g \<in> digits_value ` set (form_getlist survey_form ''genres''))
             (genre_table example_db) =
           [\<lparr>genre_pk = 2, genre_name = ''Comedy''\<rparr>, \<lparr>genre_pk = 5, genre_name = ''Crime''\<rparr>]"
    by code_simp
  have m: "filter (\<lambda>m. movie_pk m \<in> digits_value ` set (form_getlist survey_form ''liked_movies''))
             (movie_table example_db) = [m5]"
    by code_simp
  have u: "get_user example_db 2 = Some ravi" "user_pk ravi = 2" by code_simp+
  show ?thesis
    using p f n b l g m u
      survey_replaces_preferences[of survey_form example_db asha]
      survey_replaces_preferences[of survey_form example_db ravi]
    by auto
qed

end
